theory Spec2Isabelle
  imports Complex_Main "HOL-Library.Word"
begin

section \<open>The usellm request dispatcher (createLLMService.ts)\<close>

text \<open>
  A shallow embedding of the class \<open>LLMService\<close> of
  \<^verbatim>\<open>packages/usellm/src/createLLMService.ts\<close>: the template registry, the
  merge of a chat request with a template (\<open>prepareChatBody\<close>), the dispatcher
  (\<open>handle\<close>) and the four upstream adapters (\<open>chat\<close>, \<open>embed\<close>,
  \<open>transcribe\<close>, \<open>speak\<close>).

  An optional field \<open>f?: T\<close> of a TypeScript interface is a field of type
  \<open>T option\<close>; \<open>None\<close> stands for an absent (or \<open>undefined\<close>) field.
  A thrown exception or a rejected promise is the left summand of a sum type.
  An adapter returns its result together with the list of the outbound calls it made
  through the injected \<open>fetcher\<close>, in order, so that "no network call was made" is
  the statement that this list is empty.
\<close>

subsection \<open>Values\<close>

type_synonym number = rat

text \<open>Parsed JSON, as \<open>response.json()\<close> delivers it.\<close>

datatype json =
    JNull
  | JBool bool
  | JNum number
  | JStr string
  | JArr "json list"
  | JObj "(string \<times> json) list"

text \<open>
  The values of the \<open>inputs\<close> object of a chat request, and their string form,
  the string that JavaScript's \<open>String(v)\<close> gives:
  \<^item> a string is itself;
  \<^item> a boolean is \<open>true\<close> or \<open>false\<close>;
  \<^item> \<open>null\<close> is \<open>null\<close>;
  \<^item> an integer of magnitude below \<open>2^53\<close> (the integers that a JavaScript number
    holds exactly) is its decimal numeral, with a minus sign when it is negative; it is
    kept as a sign and a magnitude of 53 bits, and minus zero prints as \<open>0\<close>;
  \<^item> any other value (a fraction, a number of larger magnitude such as \<open>1e+21\<close>, an
    array, an object, \<open>undefined\<close>) is kept by the string the platform gives for it,
    for instance \<open>0.5\<close>, \<open>1e+21\<close>, \<open>1,2\<close> or \<open>[object Object]\<close>.
\<close>

datatype input_value =
    InStr string
  | InBool bool
  | InNull
  | InInt bool "53 word"
  | InOther string

fun decimal :: "nat \<Rightarrow> string" where
  "decimal k =
     (if k < 10 then [''0123456789'' ! k]
      else decimal (k div 10) @ [''0123456789'' ! (k mod 10)])"

declare decimal.simps [simp del]

fun string_form :: "input_value \<Rightarrow> string" where
  "string_form (InStr s) = s"
| "string_form (InBool b) = (if b then ''true'' else ''false'')"
| "string_form InNull = ''null''"
| "string_form (InInt negative magnitude) =
     (if negative \<and> magnitude \<noteq> 0 then CHR ''-'' # decimal (unat magnitude)
      else decimal (unat magnitude))"
| "string_form (InOther s) = s"

type_synonym inputs_map = "string \<rightharpoonup> input_value"

subsection \<open>Errors\<close>

text \<open>
  Two kinds of exception leave the service: the object built by \<open>makeErrorResponse\<close>
  (a message and a numeric status) and a plain \<open>new Error(message)\<close>. A third
  constructor stands for an exception raised by the platform (a rejected \<open>fetch\<close>,
  a response body that is not JSON, destructuring \<open>null\<close>).
\<close>

datatype error =
    ErrorResponse string nat
  | Error string
  | PlatformError string

text \<open>
  Modelled from the spec: \<open>makeErrorResponse\<close> is imported from \<open>./utils\<close>, which is
  not among the sources. The spec (External interfaces, failure responses) describes its
  value as "an error object with a message and numeric status code".
\<close>

definition makeErrorResponse :: "string \<Rightarrow> nat \<Rightarrow> error" where
  "makeErrorResponse message status = ErrorResponse message status"


fun error_status :: "error \<Rightarrow> nat option" where
  "error_status (ErrorResponse _ s) = Some s"
| "error_status (Error _) = None"
| "error_status (PlatformError _) = None"

subsection \<open>Messages, templates and request bodies\<close>

text \<open>
  \<open>OpenAIMessage\<close> is declared in \<open>./utils\<close>; \<open>prepareChatBody\<close> reads and
  writes its fields \<open>role\<close>, \<open>content\<close> and \<open>user\<close> (optional). The field
  \<open>user\<close> is named \<open>msg_user\<close> here, since the request body has a field
  \<open>user\<close> of its own.
\<close>

record OpenAIMessage =
  role :: string
  content :: string
  msg_user :: "string option"

text \<open>
  The generation parameters are shared by a template, by the merge of a template with
  \<open>defaultTemplate\<close> and by the prepared body. The source's field \<open>n\<close> is
  \<open>n_param\<close>, and the template's \<open>id\<close> is \<open>t_id\<close>.
\<close>

record generation_params =
  model :: "string option"
  temperature :: "number option"
  top_p :: "number option"
  n_param :: "number option"
  max_tokens :: "number option"
  presence_penalty :: "number option"
  frequency_penalty :: "number option"
  logit_bias :: "number option"

record template_fields = generation_params +
  systemPrompt :: "string option"
  userPrompt :: "string option"

record LLMServiceTemplate = template_fields +
  t_id :: string

datatype embed_input = InputString string | InputList "string list"

text \<open>
  The body of a request. \<open>handle\<close> receives one object and casts what is left of it
  after \<open>$action\<close> to the options interface of the action; the cast does nothing at
  run time, so a single record carries the fields of the four interfaces
  (\<open>LLMServiceChatOptions\<close>, \<open>LLMServiceTranscribeOptions\<close>,
  \<open>LLMServiceEmbedOptions\<close>, \<open>LLMServiceSpeakOptions\<close>). \<open>action\<close> is the
  key \<open>$action\<close> (declared a string in each interface), \<open>embed_model\<close> the key
  \<open>model\<close> and \<open>speak_text\<close> the key \<open>text\<close>.
\<close>

record request_body =
  action :: "string option"
  messages :: "OpenAIMessage list option"
  stream :: "bool option"
  template :: "string option"
  inputs :: "inputs_map option"
  user :: "string option"
  audioUrl :: "string option"
  language :: "string option"
  prompt :: "string option"
  input :: "embed_input option"
  embed_model :: "string option"
  speak_text :: "string option"
  model_id :: "string option"
  voice_id :: "string option"
  voice_settings :: "(number \<times> number) option"

record preparedBody = generation_params +
  p_messages :: "OpenAIMessage list"
  p_stream :: "bool option"
  p_user :: "string option"

subsection \<open>The transport\<close>

text \<open>
  The endpoint constants and \<open>getTextToSpeechApiUrl\<close> are declared in \<open>./utils\<close>,
  which is not among the sources; an endpoint is kept by its name.
\<close>

datatype endpoint =
    CHAT_COMPLETIONS_API_URL
  | EMBEDDINGS_API_URL
  | AUDIO_TRANSCRIPTIONS_API_URL
  | getTextToSpeechApiUrl string

type_synonym blob = string

datatype form_entry = FormField string | FormFile blob string

text \<open>What is posted: the argument of \<open>JSON.stringify\<close>, or the form data.\<close>

datatype payload =
    ChatJson preparedBody
  | EmbedJson "embed_input option" "string option" string
  | SpeakJson "string option" string "(number \<times> number) option"
  | FormData "(string \<times> form_entry) list"

record http_request =
  url :: endpoint
  headers :: "(string \<times> string) list"
  http_method :: string
  payload :: payload

text \<open>
  A response: the flag \<open>response.ok\<close>, the body as \<open>response.text()\<close> gives
  it, the body as \<open>response.json()\<close> gives it (\<open>None\<close> when it does not parse)
  and as \<open>response.blob()\<close> gives it.
\<close>

record http_response =
  ok :: bool
  resp_text :: string
  resp_json :: "json option"
  resp_blob :: blob

type_synonym fetcher = "http_request \<Rightarrow> error + http_response"

type_synonym ReadableStream = "string list"

text \<open>
  The result of \<open>handle\<close>: a stream or a string. \<open>ResultJson j\<close> is the string
  \<open>JSON.stringify(j)\<close>.
\<close>

datatype handle_result =
    ResultStream ReadableStream
  | ResultText string
  | ResultJson json

type_synonym 'a outcome = "(error + 'a) \<times> http_request list"

typedecl Request

record LLMServiceHandleOptions =
  body :: request_body
  request :: "Request option"

record LLMService =
  templates :: "string \<rightharpoonup> LLMServiceTemplate"
  openaiApiKey :: string
  elvenLabsApiKey :: string
  fetcher :: fetcher
  debug :: bool
  actions :: "string list"
  isAllowed :: "LLMServiceHandleOptions \<Rightarrow> bool"

text \<open>
  What the class uses and the sources do not hold: \<open>OpenAIStream\<close>
  (\<open>./OpenAIStream\<close>), \<open>dataURLToBlob\<close> (\<open>./utils\<close>) and the platform's
  \<open>FileReader.readAsDataURL\<close>. They are parameters of the model.
\<close>

record externals =
  OpenAIStream :: "preparedBody \<Rightarrow> string \<Rightarrow> fetcher \<Rightarrow> ReadableStream outcome"
  dataURLToBlob :: "string \<Rightarrow> error + blob"
  readAsDataURL :: "blob \<Rightarrow> string"

subsection \<open>Placeholder interpolation\<close>

text \<open>
  \<open>fillPrompt\<close> is imported from \<open>./utils\<close>, which is not among the sources. The
  spec (Template merge, step 5) describes it: "a placeholder written as a double-braced
  token is replaced by the string form of the matching key in the inputs map; a key not
  found leaves the placeholder text unresolved (no error) -- this is a pure,
  side-effect-free string substitution pass over the prompt text."
\<close>

text \<open>
  Modelled from the spec: the reading of a placeholder's key, a part of the missing
  \<open>fillPrompt\<close>. \<open>take_key\<close> reads the text after an opening \<open>{{\<close> up to the
  first closing \<open>}}\<close> and returns the key with the text after the closing braces, or
  \<open>None\<close> when no closing braces follow.
\<close>

fun take_key :: "string \<Rightarrow> (string \<times> string) option" where
  "take_key [] = None"
| "take_key [c] = None"
| "take_key (c # d # cs) =
     (if c = CHR ''}'' \<and> d = CHR ''}'' then Some ([], cs)
      else (case take_key (d # cs) of
              None \<Rightarrow> None
            | Some (k, rest) \<Rightarrow> Some (c # k, rest)))"

lemma take_key_shorter: "take_key s = Some (k, rest) \<Longrightarrow> length rest < length s"
  by (induction s arbitrary: k rest rule: take_key.induct)
     (auto split: if_splits option.splits)

text \<open>
  Modelled from the spec: the substitution pass of the missing \<open>fillPrompt\<close>. At an
  opening \<open>{{\<close> whose key is in the map, \<open>fill\<close> emits the string form of the
  value and goes on after the closing braces; anywhere else it copies one character, so
  that a placeholder whose key is not found stays as it is.
\<close>

function fill :: "string \<Rightarrow> inputs_map \<Rightarrow> string" where
  "fill [] I = []"
| "fill [c] I = [c]"
| "fill (c # d # cs) I =
     (if c = CHR ''{'' \<and> d = CHR ''{'' then
        (case take_key cs of
           None \<Rightarrow> c # fill (d # cs) I
         | Some (k, rest) \<Rightarrow>
             (case I k of
                None \<Rightarrow> c # fill (d # cs) I
              | Some v \<Rightarrow> string_form v @ fill rest I))
      else c # fill (d # cs) I)"
  by pat_completeness auto
termination
  by (relation "measure (\<lambda>(s, I). length s)")
     (auto dest: take_key_shorter)

text \<open>
  Modelled from the spec: \<open>fillPrompt\<close> of \<open>./utils\<close>, called as
  \<open>fillPrompt(prompt, body.inputs)\<close>. An absent \<open>inputs\<close> object has no key.
\<close>

definition fillPrompt :: "string \<Rightarrow> inputs_map option \<Rightarrow> string" where
  "fillPrompt str data = fill str (case data of None \<Rightarrow> Map.empty | Some I \<Rightarrow> I)"

text \<open>
  The vocabulary of the statements about the pass: the token that stands for a key, a
  key without braces, and a prompt in which the token of some key of the map occurs.
\<close>

definition token :: "string \<Rightarrow> string" where
  "token k = ''{{'' @ k @ ''}}''"

definition brace_free :: "string \<Rightarrow> bool" where
  "brace_free k = (CHR ''{'' \<notin> set k \<and> CHR ''}'' \<notin> set k)"

definition has_token :: "inputs_map \<Rightarrow> string \<Rightarrow> bool" where
  "has_token I s = (\<exists>pre k post. k \<in> dom I \<and> s = pre @ token k @ post)"

subsection \<open>The template registry and the merge\<close>

definition registerTemplate :: "LLMService \<Rightarrow> LLMServiceTemplate \<Rightarrow> LLMService" where
  "registerTemplate svc tpl = svc\<lparr>templates := (templates svc)(t_id tpl \<mapsto> tpl)\<rparr>"

text \<open>\<open>body.template || ""\<close>: an absent and an empty string are both falsy.\<close>

definition template_key :: "request_body \<Rightarrow> string" where
  "template_key b = (case template b of None \<Rightarrow> [] | Some t \<Rightarrow> (if t = [] then [] else t))"

text \<open>One field of \<open>{...defaultTemplate, ...overrides}\<close>: the later spread wins.\<close>

definition spread :: "'a option \<Rightarrow> 'a option \<Rightarrow> 'a option" where
  "spread dflt over = (case over of None \<Rightarrow> dflt | Some v \<Rightarrow> Some v)"

definition defaultTemplate :: template_fields where
  "defaultTemplate =
     \<lparr> model = Some ''gpt-3.5-turbo'', temperature = Some (8 / 10), top_p = None,
       n_param = None, max_tokens = Some 200, presence_penalty = None,
       frequency_penalty = None, logit_bias = None,
       systemPrompt = None, userPrompt = None \<rparr>"

text \<open>
  \<open>{...defaultTemplate, ...(this.templates[body.template || ""] || {})}\<close>. A
  registered template is an object, hence truthy; an id that does not resolve gives
  the empty object. (A name that a plain object inherits, such as \<open>constructor\<close>,
  resolves to a value with no enumerable property of its own, which spreads like the
  empty object: it behaves as an id that does not resolve.)
  A field of a template is absent when it is \<open>None\<close>.
\<close>

definition resolve_template :: "LLMService \<Rightarrow> request_body \<Rightarrow> template_fields" where
  "resolve_template svc b =
     (case templates svc (template_key b) of
        None \<Rightarrow> defaultTemplate
      | Some t \<Rightarrow>
          \<lparr> model = spread (model defaultTemplate) (model t),
            temperature = spread (temperature defaultTemplate) (temperature t),
            top_p = spread (top_p defaultTemplate) (top_p t),
            n_param = spread (n_param defaultTemplate) (n_param t),
            max_tokens = spread (max_tokens defaultTemplate) (max_tokens t),
            presence_penalty = spread (presence_penalty defaultTemplate) (presence_penalty t),
            frequency_penalty = spread (frequency_penalty defaultTemplate) (frequency_penalty t),
            logit_bias = spread (logit_bias defaultTemplate) (logit_bias t),
            systemPrompt = spread (systemPrompt defaultTemplate) (systemPrompt t),
            userPrompt = spread (userPrompt defaultTemplate) (userPrompt t) \<rparr>)"

text \<open>JavaScript truthiness of an optional string: present and not empty.\<close>

fun truthy :: "string option \<Rightarrow> bool" where
  "truthy None = False"
| "truthy (Some s) = (s \<noteq> [])"

definition system_message :: "template_fields \<Rightarrow> request_body \<Rightarrow> OpenAIMessage list" where
  "system_message tpl b =
     (case systemPrompt tpl of
        None \<Rightarrow> []
      | Some sp \<Rightarrow>
          if sp = [] then []
          else [\<lparr> role = ''system'', content = fillPrompt sp (inputs b), msg_user = None \<rparr>])"

definition user_message :: "template_fields \<Rightarrow> request_body \<Rightarrow> OpenAIMessage list" where
  "user_message tpl b =
     (case userPrompt tpl of
        None \<Rightarrow> []
      | Some up \<Rightarrow>
          if up = [] then []
          else [\<lparr> role = ''user'', content = fillPrompt up (inputs b), msg_user = None \<rparr>])"

definition copy_message :: "OpenAIMessage \<Rightarrow> OpenAIMessage" where
  "copy_message message =
     \<lparr> role = role message, content = content message, msg_user = msg_user message \<rparr>"

definition explicit_messages :: "request_body \<Rightarrow> OpenAIMessage list" where
  "explicit_messages b = (case messages b of None \<Rightarrow> [] | Some ms \<Rightarrow> map copy_message ms)"

definition filledMessages :: "LLMService \<Rightarrow> request_body \<Rightarrow> OpenAIMessage list" where
  "filledMessages svc b =
     system_message (resolve_template svc b) b
       @ user_message (resolve_template svc b) b
       @ explicit_messages b"

definition empty_message_list :: error where
  "empty_message_list =
     makeErrorResponse ''Empty message list. Please provide at least one message!'' 400"

definition prepareChatBody :: "LLMService \<Rightarrow> request_body \<Rightarrow> error + preparedBody" where
  "prepareChatBody svc b =
     (let tpl = resolve_template svc b;
          filled = filledMessages svc b
      in if length filled = 0 then Inl empty_message_list
         else Inr \<lparr> model = model tpl, temperature = temperature tpl, top_p = top_p tpl,
                    n_param = n_param tpl, max_tokens = max_tokens tpl,
                    presence_penalty = presence_penalty tpl,
                    frequency_penalty = frequency_penalty tpl,
                    logit_bias = logit_bias tpl,
                    p_messages = filled, p_stream = stream b, p_user = user b \<rparr>)"

subsection \<open>The upstream adapters\<close>

definition bearer :: "LLMService \<Rightarrow> string \<times> string" where
  "bearer svc = (''Authorization'', ''Bearer '' @ openaiApiKey svc)"

definition json_content :: "string \<times> string" where
  "json_content = (''Content-Type'', ''application/json'')"

text \<open>
  The end of \<open>chat\<close>, \<open>transcribe\<close>: one call of the fetcher, then
  \<open>if (!response.ok) throw new Error(await response.text())\<close>, then the body text.
\<close>

definition fetch_text :: "LLMService \<Rightarrow> http_request \<Rightarrow> handle_result outcome" where
  "fetch_text svc req =
     (case fetcher svc req of
        Inl e \<Rightarrow> (Inl e, [req])
      | Inr response \<Rightarrow>
          if \<not> ok response then (Inl (Error (resp_text response)), [req])
          else (Inr (ResultText (resp_text response)), [req]))"

definition chat_request :: "LLMService \<Rightarrow> preparedBody \<Rightarrow> http_request" where
  "chat_request svc prepared =
     \<lparr> url = CHAT_COMPLETIONS_API_URL, headers = [json_content, bearer svc],
       http_method = ''POST'', payload = ChatJson prepared \<rparr>"

text \<open>\<open>debug\<close> only prints the prepared body; it does not change the result.\<close>

definition chat :: "externals \<Rightarrow> LLMService \<Rightarrow> request_body \<Rightarrow> handle_result outcome" where
  "chat ext svc b =
     (case prepareChatBody svc b of
        Inl e \<Rightarrow> (Inl e, [])
      | Inr prepared \<Rightarrow>
          if p_stream prepared = Some True then
            (case OpenAIStream ext prepared (openaiApiKey svc) (fetcher svc) of
               (Inl e, calls) \<Rightarrow> (Inl e, calls)
             | (Inr result, calls) \<Rightarrow> (Inr (ResultStream result), calls))
          else fetch_text svc (chat_request svc prepared))"

definition embed_request :: "LLMService \<Rightarrow> request_body \<Rightarrow> http_request" where
  "embed_request svc options =
     \<lparr> url = EMBEDDINGS_API_URL, headers = [json_content, bearer svc],
       http_method = ''POST'',
       payload = EmbedJson (input options) (user options) ''text-embedding-ada-002'' \<rparr>"

text \<open>
  \<open>const { data } = await response.json()\<close>: \<open>None\<close> is \<open>undefined\<close> (the
  parsed value has no property \<open>data\<close>); destructuring \<open>null\<close> throws.
\<close>

fun destructure_data :: "json \<Rightarrow> error + json option" where
  "destructure_data JNull = Inl (PlatformError ''TypeError'')"
| "destructure_data (JObj props) = Inr (map_of props ''data'')"
| "destructure_data _ = Inr None"

text \<open>
  \<open>JSON.stringify({ embeddings: data })\<close>: a property whose value is
  \<open>undefined\<close> is left out.
\<close>

fun embeddings_envelope :: "json option \<Rightarrow> json" where
  "embeddings_envelope None = JObj []"
| "embeddings_envelope (Some data) = JObj [(''embeddings'', data)]"

definition embed :: "externals \<Rightarrow> LLMService \<Rightarrow> request_body \<Rightarrow> handle_result outcome" where
  "embed ext svc options =
     (let req = embed_request svc options in
      case fetcher svc req of
        Inl e \<Rightarrow> (Inl e, [req])
      | Inr response \<Rightarrow>
          if \<not> ok response then (Inl (Error (resp_text response)), [req])
          else (case resp_json response of
                  None \<Rightarrow> (Inl (PlatformError ''SyntaxError''), [req])
                | Some j \<Rightarrow>
                    (case destructure_data j of
                       Inl e \<Rightarrow> (Inl e, [req])
                     | Inr data \<Rightarrow> (Inr (ResultJson (embeddings_envelope data)), [req]))))"

definition optional_field :: "string \<Rightarrow> string option \<Rightarrow> (string \<times> form_entry) list" where
  "optional_field name v = (if truthy v then [(name, FormField (the v))] else [])"

definition transcribe_request :: "LLMService \<Rightarrow> request_body \<Rightarrow> blob \<Rightarrow> http_request" where
  "transcribe_request svc options audioBlob =
     \<lparr> url = AUDIO_TRANSCRIPTIONS_API_URL, headers = [bearer svc],
       http_method = ''POST'',
       payload = FormData
         ([(''file'', FormFile audioBlob ''recording.wav''),
           (''model'', FormField ''whisper-1'')]
          @ optional_field ''language'' (language options)
          @ optional_field ''prompt'' (prompt options)) \<rparr>"

definition audioUrl_required :: error where
  "audioUrl_required =
     makeErrorResponse ([CHR 0x27] @ ''audioUrl'' @ [CHR 0x27] @ '' is required'') 400"

definition transcribe :: "externals \<Rightarrow> LLMService \<Rightarrow> request_body \<Rightarrow> handle_result outcome" where
  "transcribe ext svc options =
     (if \<not> truthy (audioUrl options) then (Inl audioUrl_required, [])
      else (case dataURLToBlob ext (the (audioUrl options)) of
              Inl e \<Rightarrow> (Inl e, [])
            | Inr audioBlob \<Rightarrow> fetch_text svc (transcribe_request svc options audioBlob)))"

text \<open>A destructuring default applies to an absent field only.\<close>

definition or_default :: "string option \<Rightarrow> string \<Rightarrow> string" where
  "or_default v dflt = (case v of None \<Rightarrow> dflt | Some s \<Rightarrow> s)"

definition speak_request :: "LLMService \<Rightarrow> request_body \<Rightarrow> http_request" where
  "speak_request svc options =
     \<lparr> url = getTextToSpeechApiUrl (or_default (voice_id options) ''21m00Tcm4TlvDq8ikWAM''),
       headers = [json_content, (''xi-api-key'', elvenLabsApiKey svc)],
       http_method = ''POST'',
       payload = SpeakJson (speak_text options)
                   (or_default (model_id options) ''eleven_monolingual_v1'')
                   (voice_settings options) \<rparr>"

definition speak :: "externals \<Rightarrow> LLMService \<Rightarrow> request_body \<Rightarrow> handle_result outcome" where
  "speak ext svc options =
     (let req = speak_request svc options in
      case fetcher svc req of
        Inl e \<Rightarrow> (Inl e, [req])
      | Inr response \<Rightarrow>
          if \<not> ok response then (Inl (Error (resp_text response)), [req])
          else (Inr (ResultJson
                  (JObj [(''audioUrl'', JStr (readAsDataURL ext (resp_blob response)))])),
                [req]))"

subsection \<open>The dispatcher\<close>

definition not_allowed :: error where
  "not_allowed = makeErrorResponse ''Request not allowed'' 405"

definition key_required :: error where
  "key_required = makeErrorResponse ''OpenAI API key is required.'' 400"

definition action_expected :: error where
  "action_expected =
     makeErrorResponse
       ([CHR 0x60] @ ''handle'' @ [CHR 0x60] @ '' expects a key $action in the body'') 400"

definition not_supported :: "string \<Rightarrow> error" where
  "not_supported a =
     makeErrorResponse
       (''Action '' @ [CHR 0x22] @ a @ [CHR 0x22] @ '' is not supported'') 400"

text \<open>\<open>const { $action, ...rest } = body\<close>: the body without its action tag.\<close>

definition rest_of :: "request_body \<Rightarrow> request_body" where
  "rest_of b = b\<lparr>action := None\<rparr>"

definition handle ::
  "externals \<Rightarrow> LLMService \<Rightarrow> LLMServiceHandleOptions \<Rightarrow> handle_result outcome" where
  "handle ext svc opts =
     (if \<not> isAllowed svc opts then (Inl not_allowed, [])
      else if openaiApiKey svc = [] then (Inl key_required, [])
      else (case action (body opts) of
              None \<Rightarrow> (Inl action_expected, [])
            | Some a \<Rightarrow>
                if length (actions svc) > 0 \<and> a \<notin> set (actions svc)
                then (Inl (not_supported a), [])
                else if a = ''chat'' then chat ext svc (rest_of (body opts))
                else if a = ''transcribe'' then transcribe ext svc (rest_of (body opts))
                else if a = ''embed'' then embed ext svc (rest_of (body opts))
                else if a = ''speak'' then speak ext svc (rest_of (body opts))
                else (Inl (not_supported a), [])))"

subsection \<open>Configurations used in the examples\<close>

text \<open>
  \<open>createLLMService f\<close> is \<open>new LLMService({fetcher: f})\<close>: every other option
  takes the default of the constructor.
\<close>

definition createLLMService :: "fetcher \<Rightarrow> LLMService" where
  "createLLMService f =
     \<lparr> templates = Map.empty, openaiApiKey = [], elvenLabsApiKey = [], fetcher = f,
       debug = False, actions = [], isAllowed = (\<lambda>_. True) \<rparr>"

definition empty_body :: request_body where
  "empty_body =
     \<lparr> action = None, messages = None, stream = None, template = None, inputs = None,
       user = None, audioUrl = None, language = None, prompt = None, input = None,
       embed_model = None, speak_text = None, model_id = None, voice_id = None,
       voice_settings = None \<rparr>"

definition no_overrides :: "string \<Rightarrow> LLMServiceTemplate" where
  "no_overrides i =
     \<lparr> model = None, temperature = None, top_p = None, n_param = None, max_tokens = None,
       presence_penalty = None, frequency_penalty = None, logit_bias = None,
       systemPrompt = None, userPrompt = None, t_id = i \<rparr>"

text \<open>An upstream that accepts every call, and one that answers 401 to every call.\<close>

definition upstream_ok :: fetcher where
  "upstream_ok req =
     Inr \<lparr> ok = True, resp_text = ''{}'',
           resp_json = Some (JObj [(''data'', JArr [JArr [JNum 1, JNum 2]])]),
           resp_blob = ''audio'' \<rparr>"

definition upstream_401 :: fetcher where
  "upstream_401 req =
     Inr \<lparr> ok = False, resp_text = ''Incorrect API key provided'',
           resp_json = None, resp_blob = [] \<rparr>"

definition stub_externals :: externals where
  "stub_externals =
     \<lparr> OpenAIStream = (\<lambda>prepared key f. (Inr [], [])),
       dataURLToBlob = (\<lambda>s. Inr s),
       readAsDataURL = (\<lambda>b. ''data:audio/mpeg;base64,'' @ b) \<rparr>"

section \<open>Facts about the model\<close>

lemmas error_defs = not_allowed_def key_required_def action_expected_def not_supported_def
  empty_message_list_def audioUrl_required_def makeErrorResponse_def

lemmas example_defs = createLLMService_def empty_body_def upstream_ok_def upstream_401_def
  stub_externals_def no_overrides_def

subsection \<open>The body without its action tag\<close>

lemma rest_of_fields [simp]:
  "messages (rest_of b) = messages b" "stream (rest_of b) = stream b"
  "inputs (rest_of b) = inputs b" "user (rest_of b) = user b"
  "template (rest_of b) = template b" "input (rest_of b) = input b"
  by (simp_all add: rest_of_def)

lemma template_key_rest_of [simp]: "template_key (rest_of b) = template_key b"
  by (simp add: template_key_def)


lemma resolve_template_rest_of [simp]: "resolve_template svc (rest_of b) = resolve_template svc b"
  by (simp add: resolve_template_def)

subsection \<open>The message sequence\<close>

lemma system_message_falsy: "\<not> truthy (systemPrompt tpl) \<Longrightarrow> system_message tpl b = []"
  by (cases "systemPrompt tpl") (simp_all add: system_message_def)

lemma user_message_falsy: "\<not> truthy (userPrompt tpl) \<Longrightarrow> user_message tpl b = []"
  by (cases "userPrompt tpl") (simp_all add: user_message_def)

lemma copy_message_id [simp]: "copy_message m = m"
  by (simp add: copy_message_def)

lemma map_copy_message [simp]: "map copy_message ms = ms"
  by (induction ms) simp_all

lemma explicit_messages_eq:
  "explicit_messages b = (case messages b of None \<Rightarrow> [] | Some ms \<Rightarrow> ms)"
  by (simp add: explicit_messages_def split: option.splits)

lemma explicit_messages_empty:
  "messages b = None \<or> messages b = Some [] \<Longrightarrow> explicit_messages b = []"
  by (auto simp add: explicit_messages_def)

lemma messages_template_update [simp]:
  "system_message tpl (b\<lparr>template := t\<rparr>) = system_message tpl b"
  "user_message tpl (b\<lparr>template := t\<rparr>) = user_message tpl b"
  "explicit_messages (b\<lparr>template := t\<rparr>) = explicit_messages b"
  by (simp_all add: system_message_def user_message_def explicit_messages_def
        split: option.splits)

subsection \<open>The merge\<close>

lemma resolve_template_unresolved:
  "templates svc (template_key b) = None \<Longrightarrow> resolve_template svc b = defaultTemplate"
  by (simp add: resolve_template_def)




lemma prepareChatBody_empty:
  assumes "messages b = None \<or> messages b = Some []"
    and "\<not> truthy (systemPrompt (resolve_template svc b))"
    and "\<not> truthy (userPrompt (resolve_template svc b))"
  shows "prepareChatBody svc b = Inl empty_message_list"
  using assms
  by (simp add: prepareChatBody_def filledMessages_def system_message_falsy
        user_message_falsy explicit_messages_empty)


subsection \<open>The adapters and the dispatcher\<close>



lemma chat_prepare_fails: "prepareChatBody svc b = Inl e \<Longrightarrow> chat ext svc b = (Inl e, [])"
  by (simp add: chat_def)


lemma speak_calls: "snd (speak ext svc b) = [speak_request svc b]"
  by (simp add: speak_def Let_def split: sum.splits)


subsection \<open>Interpolation\<close>

lemma fill_other: "c \<noteq> CHR ''{'' \<Longrightarrow> fill (c # t) I = c # fill t I"
  by (cases t) simp_all

lemma fill_literal: "CHR ''{'' \<notin> set s \<Longrightarrow> fill (s @ t) I = s @ fill t I"
  by (induction s) (auto simp add: fill_other)

lemma take_key_closing:
  "CHR ''}'' \<notin> set k \<Longrightarrow> take_key (k @ CHR ''}'' # CHR ''}'' # rest) = Some (k, rest)"
proof (induction k)
  case Nil
  then show ?case by simp
next
  case (Cons c k)
  then obtain d cs where "k @ CHR ''}'' # CHR ''}'' # rest = d # cs"
    by (cases "k @ CHR ''}'' # CHR ''}'' # rest") auto
  with Cons show ?case by auto
qed

lemma fill_resolved:
  assumes "CHR ''}'' \<notin> set k" and "I k = Some v"
  shows "fill (''{{'' @ k @ ''}}'' @ t) I = string_form v @ fill t I"
  using assms by (simp add: take_key_closing)

lemma fill_unresolved:
  assumes "CHR ''{'' \<notin> set k" and "CHR ''}'' \<notin> set k" and "I k = None"
  shows "fill (''{{'' @ k @ ''}}'' @ t) I = ''{{'' @ k @ ''}}'' @ fill t I"
proof -
  have "fill (''{{'' @ k @ ''}}'' @ t) I = CHR ''{'' # fill (CHR ''{'' # k @ ''}}'' @ t) I"
    using assms by (simp add: take_key_closing)
  also have "fill (CHR ''{'' # k @ ''}}'' @ t) I = CHR ''{'' # fill (k @ ''}}'' @ t) I"
    using assms(1) by (cases k) auto
  also have "fill (k @ ''}}'' @ t) I = k @ fill (''}}'' @ t) I"
    using assms(1) by (rule fill_literal)
  also have "fill (''}}'' @ t) I = ''}}'' @ fill t I"
    by (simp add: fill_other)
  finally show ?thesis by simp
qed

lemma fill_no_key: "I = Map.empty \<Longrightarrow> fill s I = s"
proof (induction s I rule: fill.induct)
  case (1 I)
  then show ?case by simp
next
  case (2 c I)
  then show ?case by simp
next
  case (3 c d cs I)
  show ?case
  proof (cases "c = CHR ''{'' \<and> d = CHR ''{''")
    case True
    show ?thesis
    proof (cases "take_key cs")
      case None
      with True "3.IH"(1) "3.prems" show ?thesis by simp
    next
      case (Some kr)
      obtain k rest where kr: "(k, rest) = kr" by (cases kr) simp
      have absent: "I k = None"
        using "3.prems" by simp
      have "fill (d # cs) I = d # cs"
        using "3.IH"(2) [OF True Some kr absent "3.prems"] .
      moreover have "take_key cs = Some (k, rest)"
        using Some kr by simp
      ultimately show ?thesis
        using True absent by simp
    qed
  next
    case False
    with "3.IH"(4) "3.prems" show ?thesis by auto
  qed
qed

lemma fill_no_inputs: "fill s Map.empty = s"
  by (simp add: fill_no_key)

lemma take_key_Some: "take_key s = Some (k, rest) \<Longrightarrow> s = k @ ''}}'' @ rest"
  by (induction s arbitrary: k rest rule: take_key.induct)
     (auto split: if_splits option.splits)

lemma take_key_append:
  "take_key s = Some (k, rest) \<Longrightarrow> take_key (s @ t) = Some (k, rest @ t)"
  by (induction s arbitrary: k rest rule: take_key.induct)
     (auto split: if_splits option.splits)

lemma take_key_open:
  "take_key s = None \<Longrightarrow>
     take_key (s @ CHR ''{'' # t) =
       (case take_key t of None \<Rightarrow> None | Some (k, rest) \<Rightarrow> Some (s @ CHR ''{'' # k, rest))"
proof (induction s rule: take_key.induct)
  case 1
  then show ?case by (cases t) (auto split: option.splits)
next
  case (2 c)
  then show ?case by (cases t) (auto split: option.splits)
next
  case (3 c d cs)
  then show ?case by (auto split: if_splits option.splits)
qed

lemma take_key_before_token:
  assumes "take_key s = None" and "CHR ''}'' \<notin> set k"
  shows "take_key (s @ token k @ t) = Some (s @ ''{{'' @ k, t)"
proof -
  have "take_key (CHR ''{'' # k @ ''}}'' @ t) = Some (CHR ''{'' # k, t)"
    using take_key_closing [of "CHR ''{'' # k" t] assms(2) by simp
  then show ?thesis
    using take_key_open [OF assms(1), of "CHR ''{'' # k @ ''}}'' @ t"]
    by (simp add: token_def)
qed


lemma fill_token:
  assumes "CHR ''}'' \<notin> set k" and "I k = Some v"
  shows "fill (token k @ t) I = string_form v @ fill t I"
  using assms by (simp add: token_def take_key_closing)

lemma fill_token_absent:
  assumes "brace_free k" and "I k = None"
  shows "fill (token k @ t) I = token k @ fill t I"
  using assms fill_unresolved [of k I t] by (simp add: token_def brace_free_def)

lemma fill_cut:
  assumes keys: "\<forall>k' \<in> dom I. CHR ''{'' \<notin> set k'" and k: "CHR ''}'' \<notin> set k"
  shows "fill (pre @ token k @ post) I = fill pre I @ fill (token k @ post) I"
  using keys
proof (induction pre I rule: fill.induct)
  case (1 I)
  then show ?case by simp
next
  case (2 c I)
  show ?case
  proof (cases "c = CHR ''{''")
    case True
    have "take_key (CHR ''{'' # k @ ''}}'' @ post) = Some (CHR ''{'' # k, post)"
      using take_key_closing [of "CHR ''{'' # k" post] k by simp
    moreover have "I (CHR ''{'' # k) = None"
      using "2.prems" by (auto simp add: dom_def)
    ultimately have "fill (c # token k @ post) I = c # fill (token k @ post) I"
      using True by (simp add: token_def)
    then show ?thesis by simp
  next
    case False
    then have "fill (c # token k @ post) I = c # fill (token k @ post) I"
      by (simp add: token_def)
    then show ?thesis by simp
  qed
next
  case (3 c d cs I)
  let ?tail = "token k @ post"
  show ?case
  proof (cases "c = CHR ''{'' \<and> d = CHR ''{''")
    case True
    show ?thesis
    proof (cases "take_key cs")
      case None
      have "take_key (cs @ ?tail) = Some (cs @ ''{{'' @ k, post)"
        using take_key_before_token [OF None k] .
      moreover have "I (cs @ ''{{'' @ k) = None"
        using "3.prems" by (auto simp add: dom_def)
      ultimately have "fill (c # d # cs @ ?tail) I = c # fill (d # cs @ ?tail) I"
        using True by simp
      moreover have "fill (c # d # cs) I = c # fill (d # cs) I"
        using True None by simp
      moreover have "fill ((d # cs) @ ?tail) I = fill (d # cs) I @ fill ?tail I"
        using "3.IH"(1) [OF True None "3.prems"] .
      ultimately show ?thesis by simp
    next
      case (Some kr)
      obtain k1 rest1 where kr: "(k1, rest1) = kr" by (cases kr) simp
      have here: "take_key cs = Some (k1, rest1)"
        using Some kr by simp
      then have there: "take_key (cs @ ?tail) = Some (k1, rest1 @ ?tail)"
        by (rule take_key_append)
      show ?thesis
      proof (cases "I k1")
        case None
        have "fill ((d # cs) @ ?tail) I = fill (d # cs) I @ fill ?tail I"
          using "3.IH"(2) [OF True Some kr None "3.prems"] .
        then show ?thesis
          using True here there None by simp
      next
        case (Some v1)
        have "fill (rest1 @ ?tail) I = fill rest1 I @ fill ?tail I"
          using "3.IH"(3) [OF True \<open>take_key cs = Some kr\<close> kr Some "3.prems"] .
        then show ?thesis
          using True here there Some by simp
      qed
    qed
  next
    case False
    have "fill ((d # cs) @ ?tail) I = fill (d # cs) I @ fill ?tail I"
      using "3.IH"(4) [OF False "3.prems"] .
    then show ?thesis
      using False by auto
  qed
qed

lemma fill_at_token:
  assumes "\<forall>k' \<in> dom I. brace_free k'" and "I k = Some v"
  shows "fill (pre @ token k @ post) I = fill pre I @ string_form v @ fill post I"
proof -
  have "brace_free k"
    using assms by (auto simp add: dom_def)
  then show ?thesis
    using assms fill_cut [of I k pre post] fill_token [of k I v post]
    by (simp add: brace_free_def)
qed

lemma fill_at_absent_token:
  assumes "\<forall>k' \<in> dom I. brace_free k'" and "brace_free k" and "I k = None"
  shows "fill (pre @ token k @ post) I = fill pre I @ token k @ fill post I"
  using assms fill_cut [of I k pre post] fill_token_absent [of k I post]
  by (simp add: brace_free_def)

lemma has_token_Cons: "has_token I s \<Longrightarrow> has_token I (c # s)"
  unfolding has_token_def
  by (metis append_Cons)

lemma fill_no_token: "\<not> has_token I s \<Longrightarrow> fill s I = s"
proof (induction s I rule: fill.induct)
  case (1 I)
  then show ?case by simp
next
  case (2 c I)
  then show ?case by simp
next
  case (3 c d cs I)
  have tail: "\<not> has_token I (d # cs)"
    using "3.prems" has_token_Cons by blast
  show ?case
  proof (cases "c = CHR ''{'' \<and> d = CHR ''{''")
    case True
    show ?thesis
    proof (cases "take_key cs")
      case None
      with True "3.IH"(1) tail show ?thesis by simp
    next
      case (Some kr)
      obtain k1 rest1 where kr: "(k1, rest1) = kr" by (cases kr) simp
      have here: "take_key cs = Some (k1, rest1)"
        using Some kr by simp
      then have "c # d # cs = [] @ token k1 @ rest1"
        using True take_key_Some [OF here] by (simp add: token_def)
      then have absent: "I k1 = None"
        using "3.prems" unfolding has_token_def by (metis domIff)
      have "fill (d # cs) I = d # cs"
        using "3.IH"(2) [OF True Some kr absent tail] .
      then show ?thesis
        using True here absent by simp
    qed
  next
    case False
    with "3.IH"(4) tail show ?thesis by auto
  qed
qed


subsection \<open>The embed adapter\<close>

lemma embed_calls: "snd (embed ext svc options) = [embed_request svc options]"
  by (simp add: embed_def Let_def split: sum.splits option.splits)

lemma embed_ignores_model: "embed ext svc (options\<lparr>embed_model := m\<rparr>) = embed ext svc options"
  by (simp add: embed_def embed_request_def)

lemma embed_success:
  assumes "fetcher svc (embed_request svc options) = Inr response" and "ok response"
    and "resp_json response = Some (JObj props)" and "map_of props ''data'' = Some vectors"
  shows "embed ext svc options =
           (Inr (ResultJson (JObj [(''embeddings'', vectors)])), [embed_request svc options])"
  using assms by (simp add: embed_def)

section \<open>The claims\<close>

subsection \<open>C6: the authorization predicate comes first\<close>

text \<open>
  Claim C6. For every request for which the authorization predicate \<open>isAllowed\<close>
  returns false, \<open>handle\<close> rejects with status 405, whatever the rest of the
  configuration and of the request: the theorem holds for every service (so also one
  with no OpenAI credential), every body (so also one with no \<open>$action\<close>) and every
  allow-list (so also one that excludes the action). No network call is made.
\<close>

theorem handle_not_allowed:
  "\<not> isAllowed svc opts \<Longrightarrow>
     handle ext svc opts = (Inl (ErrorResponse ''Request not allowed'' 405), [])"
  by (simp add: handle_def error_defs)

text \<open>
  A service with no OpenAI credential and the allow-list \<open>["chat"]\<close>, whose predicate
  vetoes: a request for \<open>embed\<close> and a request with no action tag both get 405.
\<close>

theorem handle_not_allowed_witness:
  "openaiApiKey ((createLLMService upstream_ok)
       \<lparr>actions := [''chat''], isAllowed := (\<lambda>_. False)\<rparr>) = []
   \<and> handle stub_externals
        ((createLLMService upstream_ok)\<lparr>actions := [''chat''], isAllowed := (\<lambda>_. False)\<rparr>)
        \<lparr> body = empty_body\<lparr>action := Some ''embed''\<rparr>, request = None \<rparr>
      = (Inl (ErrorResponse ''Request not allowed'' 405), [])
   \<and> handle stub_externals
        ((createLLMService upstream_ok)\<lparr>actions := [''chat''], isAllowed := (\<lambda>_. False)\<rparr>)
        \<lparr> body = empty_body, request = None \<rparr>
      = (Inl (ErrorResponse ''Request not allowed'' 405), [])"
  using
    handle_not_allowed [where ext = stub_externals
      and svc = "(createLLMService upstream_ok)\<lparr>actions := [''chat''], isAllowed := (\<lambda>_. False)\<rparr>"
      and opts = "\<lparr> body = empty_body\<lparr>action := Some ''embed''\<rparr>, request = None \<rparr>"]
    handle_not_allowed [where ext = stub_externals
      and svc = "(createLLMService upstream_ok)\<lparr>actions := [''chat''], isAllowed := (\<lambda>_. False)\<rparr>"
      and opts = "\<lparr> body = empty_body, request = None \<rparr>"]
  by (simp add: createLLMService_def)

subsection \<open>C5: an action off the allow-list\<close>

text \<open>
  Claim C5 says that every request whose action is outside a non-empty allow-list fails
  with a 400. It does not: the authorization predicate is asked first, and a request it
  vetoes fails with 405. Here the allow-list is \<open>["chat"]\<close>, the action is
  \<open>embed\<close> and the predicate returns false.
\<close>

theorem handle_off_allow_list_counterexample:
  "actions ((createLLMService upstream_ok)
       \<lparr>openaiApiKey := ''sk-test'', actions := [''chat''], isAllowed := (\<lambda>_. False)\<rparr>) \<noteq> []
   \<and> ''embed'' \<notin> set (actions ((createLLMService upstream_ok)
       \<lparr>openaiApiKey := ''sk-test'', actions := [''chat''], isAllowed := (\<lambda>_. False)\<rparr>))
   \<and> handle stub_externals
        ((createLLMService upstream_ok)
           \<lparr>openaiApiKey := ''sk-test'', actions := [''chat''], isAllowed := (\<lambda>_. False)\<rparr>)
        \<lparr> body = empty_body\<lparr>action := Some ''embed'', input := Some (InputString ''hi'')\<rparr>,
          request = None \<rparr>
      = (Inl (ErrorResponse ''Request not allowed'' 405), [])"
  by (simp add: handle_def error_defs example_defs)

text \<open>
  Claim C5, amended. For every request whose \<open>$action\<close> is outside a non-empty
  allow-list, \<open>handle\<close> fails before any action handler runs and without a network
  call, even when a handler for the action exists (the action \<open>a\<close> is arbitrary):
  with status 405 when the authorization predicate vetoes the request, and with status
  400 otherwise (the missing credential, or else the unsupported action).
\<close>

theorem handle_off_allow_list:
  assumes "action (body opts) = Some a" and "actions svc \<noteq> []" and "a \<notin> set (actions svc)"
  shows "handle ext svc opts =
           (Inl (if \<not> isAllowed svc opts then not_allowed
                 else if openaiApiKey svc = [] then key_required
                 else not_supported a), [])
         \<and> error_status not_allowed = Some 405
         \<and> error_status key_required = Some 400
         \<and> error_status (not_supported a) = Some 400"
  using assms by (simp add: handle_def error_defs)

text \<open>
  The scenario of the spec: allow-list \<open>["chat"]\<close>, body
  \<open>{$action: "embed", input: "hi"}\<close>; the result is a 400 and the embeddings
  endpoint is never called.
\<close>

theorem handle_off_allow_list_witness:
  "handle stub_externals
        ((createLLMService upstream_ok)\<lparr>openaiApiKey := ''sk-test'', actions := [''chat'']\<rparr>)
        \<lparr> body = empty_body\<lparr>action := Some ''embed'', input := Some (InputString ''hi'')\<rparr>,
          request = None \<rparr>
      = (Inl (ErrorResponse
                (''Action '' @ [CHR 0x22] @ ''embed'' @ [CHR 0x22] @ '' is not supported'') 400),
         [])"
  using handle_off_allow_list [where ext = stub_externals and a = "''embed''"
      and svc = "(createLLMService upstream_ok)\<lparr>openaiApiKey := ''sk-test'', actions := [''chat'']\<rparr>"
      and opts = "\<lparr> body = empty_body\<lparr>action := Some ''embed'',
                          input := Some (InputString ''hi'')\<rparr>, request = None \<rparr>"]
  by (simp add: error_defs example_defs)

subsection \<open>C1: which credential is required\<close>

text \<open>
  Claim C1 says that \<open>speak\<close> is rejected when the ElevenLabs credential is absent and
  is not rejected for an absent OpenAI credential. The code does the opposite on both
  counts. With an OpenAI credential and no ElevenLabs credential, a \<open>speak\<close> request
  goes through; with an ElevenLabs credential and no OpenAI credential, it is rejected
  with "OpenAI API key is required.".
\<close>

theorem handle_credential_check_counterexample:
  "elvenLabsApiKey ((createLLMService upstream_ok)\<lparr>openaiApiKey := ''sk-test''\<rparr>) = []
   \<and> fst (handle stub_externals
        ((createLLMService upstream_ok)\<lparr>openaiApiKey := ''sk-test''\<rparr>)
        \<lparr> body = empty_body\<lparr>action := Some ''speak'', speak_text := Some ''hi''\<rparr>,
          request = None \<rparr>)
     = Inr (ResultJson (JObj [(''audioUrl'', JStr ''data:audio/mpeg;base64,audio'')]))
   \<and> handle stub_externals
        ((createLLMService upstream_ok)\<lparr>elvenLabsApiKey := ''el-test''\<rparr>)
        \<lparr> body = empty_body\<lparr>action := Some ''speak'', speak_text := Some ''hi''\<rparr>,
          request = None \<rparr>
     = (Inl (ErrorResponse ''OpenAI API key is required.'' 400), [])"
  by (simp add: handle_def speak_def speak_request_def rest_of_def or_default_def
        json_content_def error_defs example_defs)

text \<open>
  Claim C1, amended. For every request that the authorization predicate accepts:
  when the OpenAI credential is absent, \<open>handle\<close> rejects with the 400 configuration
  error "OpenAI API key is required." and makes no network call, whatever the action
  (\<open>speak\<close> as well as \<open>chat\<close>, \<open>embed\<close> and \<open>transcribe\<close>); when it is
  present, \<open>handle\<close> checks no other credential and passes a request whose action
  the allow-list admits to the adapter of that action. The ElevenLabs credential is
  never checked: \<open>speak\<close> always posts its request, with the configured credential
  (empty when absent) as the \<open>xi-api-key\<close> header.
\<close>

theorem handle_credential_check:
  assumes "isAllowed svc opts"
  shows "(openaiApiKey svc = [] \<longrightarrow>
            handle ext svc opts = (Inl (ErrorResponse ''OpenAI API key is required.'' 400), []))
       \<and> (openaiApiKey svc \<noteq> [] \<and> (actions svc = [] \<or> a \<in> set (actions svc))
            \<and> action (body opts) = Some a \<longrightarrow>
            handle ext svc opts =
              (if a = ''chat'' then chat ext svc (rest_of (body opts))
               else if a = ''transcribe'' then transcribe ext svc (rest_of (body opts))
               else if a = ''embed'' then embed ext svc (rest_of (body opts))
               else if a = ''speak'' then speak ext svc (rest_of (body opts))
               else (Inl (not_supported a), [])))
       \<and> snd (speak ext svc b) = [speak_request svc b]
       \<and> map_of (headers (speak_request svc b)) ''xi-api-key'' = Some (elvenLabsApiKey svc)"
  using assms
  by (auto simp add: handle_def error_defs speak_calls speak_request_def json_content_def)

text \<open>
  A service with both credentials absent accepts the request (the default predicate) and
  rejects a \<open>chat\<close> request with the configuration error.
\<close>

theorem handle_credential_check_witness:
  "isAllowed (createLLMService upstream_ok)
      \<lparr> body = empty_body\<lparr>action := Some ''chat''\<rparr>, request = None \<rparr>
   \<and> handle stub_externals (createLLMService upstream_ok)
        \<lparr> body = empty_body\<lparr>action := Some ''chat''\<rparr>, request = None \<rparr>
     = (Inl (ErrorResponse ''OpenAI API key is required.'' 400), [])"
proof -
  have allowed: "isAllowed (createLLMService upstream_ok)
      \<lparr> body = empty_body\<lparr>action := Some ''chat''\<rparr>, request = None \<rparr>"
    by (simp add: createLLMService_def)
  show ?thesis
    using allowed handle_credential_check [OF allowed, where ext = stub_externals]
    by (simp add: createLLMService_def)
qed

subsection \<open>C2: an empty message sequence is rejected before any call\<close>

text \<open>
  Claim C2 says that every chat request with no explicit message and no template prompt
  fails with a 400 validation error. Through \<open>handle\<close> it does not: the guards of
  \<open>handle\<close> come first. The same body \<open>{$action: "chat", messages: []}\<close> gets 405
  when the predicate vetoes it, the configuration error when no OpenAI credential is
  configured, and the unsupported-action error when the allow-list is \<open>["embed"]\<close>.
\<close>

theorem empty_chat_rejected_counterexample:
  "handle stub_externals
      ((createLLMService upstream_ok)\<lparr>openaiApiKey := ''sk-test'', isAllowed := (\<lambda>_. False)\<rparr>)
      \<lparr> body = empty_body\<lparr>action := Some ''chat'', messages := Some []\<rparr>, request = None \<rparr>
    = (Inl (ErrorResponse ''Request not allowed'' 405), [])
   \<and> handle stub_externals (createLLMService upstream_ok)
      \<lparr> body = empty_body\<lparr>action := Some ''chat'', messages := Some []\<rparr>, request = None \<rparr>
    = (Inl (ErrorResponse ''OpenAI API key is required.'' 400), [])
   \<and> handle stub_externals
      ((createLLMService upstream_ok)\<lparr>openaiApiKey := ''sk-test'', actions := [''embed'']\<rparr>)
      \<lparr> body = empty_body\<lparr>action := Some ''chat'', messages := Some []\<rparr>, request = None \<rparr>
    = (Inl (ErrorResponse
              (''Action '' @ [CHR 0x22] @ ''chat'' @ [CHR 0x22] @ '' is not supported'') 400),
       [])"
  by (simp add: handle_def error_defs example_defs)

text \<open>
  Claim C2, amended. For every chat request whose explicit messages are empty or absent
  and whose resolved template has neither a system prompt nor a user prompt (an empty
  prompt counts as none), the dispatch fails before any outbound network call, the
  fetcher being never invoked: \<open>chat\<close> fails with the 400 validation error "Empty
  message list. Please provide at least one message!", and \<open>handle\<close> fails with this
  error whenever its own guards let the request through, and otherwise with the error
  of the first guard that rejects it (405 for the predicate's veto, 400 for the missing
  OpenAI credential, 400 for \<open>chat\<close> off the allow-list).
\<close>

theorem empty_chat_rejected:
  assumes "messages b = None \<or> messages b = Some []"
    and "\<not> truthy (systemPrompt (resolve_template svc b))"
    and "\<not> truthy (userPrompt (resolve_template svc b))"
  shows "chat ext svc b = (Inl empty_message_list, [])
       \<and> (\<forall>opts. body opts = b \<and> action b = Some ''chat'' \<longrightarrow>
             handle ext svc opts =
               (Inl (if \<not> isAllowed svc opts then not_allowed
                     else if openaiApiKey svc = [] then key_required
                     else if actions svc \<noteq> [] \<and> ''chat'' \<notin> set (actions svc)
                       then not_supported ''chat''
                     else empty_message_list), []))
       \<and> empty_message_list
           = ErrorResponse ''Empty message list. Please provide at least one message!'' 400
       \<and> error_status not_allowed = Some 405
       \<and> error_status key_required = Some 400
       \<and> error_status (not_supported ''chat'') = Some 400"
proof -
  have q: "prepareChatBody svc (rest_of b) = Inl empty_message_list"
    using assms by (intro prepareChatBody_empty) simp_all
  have c: "chat ext svc b = (Inl empty_message_list, [])"
    using assms by (intro chat_prepare_fails prepareChatBody_empty)
  have r: "chat ext svc (rest_of b) = (Inl empty_message_list, [])"
    using q by (rule chat_prepare_fails)
  have h: "handle ext svc opts =
               (Inl (if \<not> isAllowed svc opts then not_allowed
                     else if openaiApiKey svc = [] then key_required
                     else if actions svc \<noteq> [] \<and> ''chat'' \<notin> set (actions svc)
                       then not_supported ''chat''
                     else empty_message_list), [])"
    if "body opts = b" "action b = Some ''chat''" for opts
    using that r by (simp add: handle_def)
  show ?thesis
    using c h by (simp add: error_defs)
qed

text \<open>
  A configured service with no template, and the body \<open>{$action: "chat", messages: []}\<close>.
\<close>

theorem empty_chat_rejected_witness:
  "handle stub_externals
      ((createLLMService upstream_ok)\<lparr>openaiApiKey := ''sk-test''\<rparr>)
      \<lparr> body = empty_body\<lparr>action := Some ''chat'', messages := Some []\<rparr>, request = None \<rparr>
    = (Inl (ErrorResponse ''Empty message list. Please provide at least one message!'' 400), [])"
  using empty_chat_rejected [where ext = stub_externals
      and b = "empty_body\<lparr>action := Some ''chat'', messages := Some []\<rparr>"
      and svc = "(createLLMService upstream_ok)\<lparr>openaiApiKey := ''sk-test''\<rparr>"]
  by (simp add: example_defs resolve_template_def template_key_def defaultTemplate_def)

subsection \<open>C3: a template id that does not resolve\<close>

text \<open>
  Claim C3. For every chat request whose template id does not resolve in the registry,
  the lookup itself raises nothing (the only failure left is the empty message list),
  and the prepared body is the fixed defaults (model \<open>gpt-3.5-turbo\<close>, max_tokens 200,
  temperature 0.8, nothing else) with the request's own messages, stream and user. The
  right-hand side does not mention the service: no registered template contributes.
\<close>

theorem unresolved_template_defaults:
  assumes "templates svc (template_key b) = None"
  shows "prepareChatBody svc b =
           (case messages b of
              None \<Rightarrow> Inl empty_message_list
            | Some ms \<Rightarrow>
                if ms = [] then Inl empty_message_list
                else Inr \<lparr> model = Some ''gpt-3.5-turbo'', temperature = Some (8 / 10),
                           top_p = None, n_param = None, max_tokens = Some 200,
                           presence_penalty = None, frequency_penalty = None,
                           logit_bias = None,
                           p_messages = ms, p_stream = stream b, p_user = user b \<rparr>)"
  using assms
  by (simp add: prepareChatBody_def filledMessages_def resolve_template_unresolved
        system_message_def user_message_def explicit_messages_eq defaultTemplate_def
        split: option.splits)

text \<open>
  The registry holds a template \<open>t1\<close> with a model and a system prompt; the request
  names \<open>t2\<close>. Nothing of \<open>t1\<close> reaches the prepared body.
\<close>

theorem unresolved_template_defaults_witness:
  "prepareChatBody
     (registerTemplate (createLLMService upstream_ok)
        ((no_overrides ''t1'')
           \<lparr>model := Some ''gpt-4'', systemPrompt := Some ''You are {{name}}''\<rparr>))
     (empty_body\<lparr>template := Some ''t2'', user := Some ''u1'',
        messages := Some [\<lparr>role = ''user'', content = ''Hi {{name}}'', msg_user = None\<rparr>]\<rparr>)
   = Inr \<lparr> model = Some ''gpt-3.5-turbo'', temperature = Some (8 / 10),
           top_p = None, n_param = None, max_tokens = Some 200,
           presence_penalty = None, frequency_penalty = None, logit_bias = None,
           p_messages = [\<lparr>role = ''user'', content = ''Hi {{name}}'', msg_user = None\<rparr>],
           p_stream = None, p_user = Some ''u1'' \<rparr>"
  using unresolved_template_defaults [where
     svc = "registerTemplate (createLLMService upstream_ok)
        ((no_overrides ''t1'')
           \<lparr>model := Some ''gpt-4'', systemPrompt := Some ''You are {{name}}''\<rparr>)"
     and b = "empty_body\<lparr>template := Some ''t2'', user := Some ''u1'',
        messages := Some [\<lparr>role = ''user'', content = ''Hi {{name}}'', msg_user = None\<rparr>]\<rparr>"]
  by (simp add: example_defs registerTemplate_def template_key_def)

subsection \<open>C4: the order of the prepared messages\<close>

text \<open>
  Claim C4. The message sequence of a chat request is, in this order: the template's
  system prompt interpolated over the request's inputs, as a system message, if the
  resolved template has a system prompt; the template's user prompt interpolated, as a
  user message, if it has a user prompt; then the explicit messages of the request, in
  their order and unchanged (role, content and user id as they came, no interpolation).
  A prompt is present when it is a non-empty string. The prepared body carries exactly
  this sequence.
\<close>

theorem prepared_message_order:
  "filledMessages svc b =
     (if truthy (systemPrompt (resolve_template svc b))
      then [\<lparr> role = ''system'',
              content = fillPrompt (the (systemPrompt (resolve_template svc b))) (inputs b),
              msg_user = None \<rparr>]
      else [])
     @ (if truthy (userPrompt (resolve_template svc b))
        then [\<lparr> role = ''user'',
                content = fillPrompt (the (userPrompt (resolve_template svc b))) (inputs b),
                msg_user = None \<rparr>]
        else [])
     @ (case messages b of None \<Rightarrow> [] | Some ms \<Rightarrow> ms)
   \<and> (\<forall>prepared. prepareChatBody svc b = Inr prepared \<longrightarrow>
         p_messages prepared = filledMessages svc b)"
  by (auto simp add: filledMessages_def system_message_def user_message_def
        explicit_messages_eq prepareChatBody_def Let_def split: option.splits)

text \<open>
  The scenario of the spec: template \<open>{id: "t1", systemPrompt: "You are {{name}}"}\<close>,
  inputs \<open>{name: "Bot"}\<close>, no explicit messages; the prepared messages are
  \<open>[{role: "system", content: "You are Bot"}]\<close>.
\<close>

theorem prepared_message_order_witness:
  "\<exists>prepared.
     prepareChatBody
       (registerTemplate (createLLMService upstream_ok)
          ((no_overrides ''t1'')\<lparr>systemPrompt := Some ''You are {{name}}''\<rparr>))
       (empty_body\<lparr>template := Some ''t1'', inputs := Some [''name'' \<mapsto> InStr ''Bot'']\<rparr>)
     = Inr prepared
   \<and> p_messages prepared = [\<lparr>role = ''system'', content = ''You are Bot'', msg_user = None\<rparr>]"
  using prepared_message_order [where
       svc = "registerTemplate (createLLMService upstream_ok)
          ((no_overrides ''t1'')\<lparr>systemPrompt := Some ''You are {{name}}''\<rparr>)"
       and b = "empty_body\<lparr>template := Some ''t1'',
                  inputs := Some [''name'' \<mapsto> InStr ''Bot'']\<rparr>"]
  by (simp add: example_defs registerTemplate_def template_key_def resolve_template_def
        defaultTemplate_def spread_def fillPrompt_def prepareChatBody_def)

subsection \<open>C10: an absent template id is the empty id\<close>



subsection \<open>C8: a failing upstream, without streaming\<close>



subsection \<open>C9: the embedding model is fixed\<close>

text \<open>
  Claim C9. For every embed request, \<open>embed\<close> makes one call, to the embeddings
  endpoint, whose body is \<open>{input, user, model}\<close> with the model
  \<open>text-embedding-ada-002\<close>; the \<open>model\<close> field of the request changes nothing.
  When the upstream answers with success and a JSON object whose \<open>data\<close> are the
  vectors, the result is \<open>{embeddings: vectors}\<close>. \<open>handle\<close> passes an embed
  request that gets through its checks to \<open>embed\<close>.
\<close>

theorem embed_fixed_model:
  "snd (embed ext svc options) = [embed_request svc options]
   \<and> url (embed_request svc options) = EMBEDDINGS_API_URL
   \<and> payload (embed_request svc options)
       = EmbedJson (input options) (user options) ''text-embedding-ada-002''
   \<and> embed ext svc (options\<lparr>embed_model := m\<rparr>) = embed ext svc options
   \<and> (fetcher svc (embed_request svc options) = Inr response \<and> ok response
        \<and> resp_json response = Some (JObj props) \<and> map_of props ''data'' = Some vectors \<longrightarrow>
      fst (embed ext svc options) = Inr (ResultJson (JObj [(''embeddings'', vectors)])))
   \<and> (isAllowed svc opts \<and> openaiApiKey svc \<noteq> [] \<and> action (body opts) = Some ''embed''
        \<and> (actions svc = [] \<or> ''embed'' \<in> set (actions svc)) \<longrightarrow>
      handle ext svc opts = embed ext svc (body opts))"
proof -
  have "embed ext svc (rest_of b) = embed ext svc b" for b
    by (simp add: embed_def embed_request_def)
  then have "handle ext svc opts = embed ext svc (body opts)"
    if "isAllowed svc opts" "openaiApiKey svc \<noteq> []" "action (body opts) = Some ''embed''"
       "actions svc = [] \<or> ''embed'' \<in> set (actions svc)"
    using that by (auto simp add: handle_def)
  then show ?thesis
    by (auto simp add: embed_calls embed_ignores_model embed_success)
       (simp_all add: embed_request_def)
qed

text \<open>
  A request that asks for the model \<open>text-embedding-3-large\<close>: the body posted names
  \<open>text-embedding-ada-002\<close>, and the vectors come back under \<open>embeddings\<close>.
\<close>

theorem embed_fixed_model_witness:
  "handle stub_externals
      ((createLLMService upstream_ok)\<lparr>openaiApiKey := ''sk-test''\<rparr>)
      \<lparr> body = empty_body\<lparr>action := Some ''embed'', input := Some (InputString ''hi''),
                  embed_model := Some ''text-embedding-3-large''\<rparr>,
        request = None \<rparr>
    = (Inr (ResultJson (JObj [(''embeddings'', JArr [JArr [JNum 1, JNum 2]])])),
       [\<lparr> url = EMBEDDINGS_API_URL,
          headers = [(''Content-Type'', ''application/json''),
                     (''Authorization'', ''Bearer sk-test'')],
          http_method = ''POST'',
          payload = EmbedJson (Some (InputString ''hi'')) None ''text-embedding-ada-002'' \<rparr>])"
proof -
  let ?svc = "(createLLMService upstream_ok)\<lparr>openaiApiKey := ''sk-test''\<rparr>"
  let ?b = "empty_body\<lparr>action := Some ''embed'', input := Some (InputString ''hi''),
                  embed_model := Some ''text-embedding-3-large''\<rparr>"
  let ?response = "\<lparr> ok = True, resp_text = ''{}'',
           resp_json = Some (JObj [(''data'', JArr [JArr [JNum 1, JNum 2]])]),
           resp_blob = ''audio'' \<rparr>"
  have "fetcher ?svc (embed_request ?svc ?b) = Inr ?response"
    by (simp add: example_defs)
  then show ?thesis
    using embed_fixed_model [where ext = stub_externals and svc = ?svc and options = ?b
        and opts = "\<lparr> body = ?b, request = None \<rparr>" and response = ?response
        and props = "[(''data'', JArr [JArr [JNum 1, JNum 2]])]"
        and vectors = "JArr [JArr [JNum 1, JNum 2]]" and m = None]
    by (simp add: example_defs embed_request_def json_content_def bearer_def prod_eq_iff)
qed

subsection \<open>C7: placeholder interpolation\<close>

text \<open>
  Claim C7 is about every inputs map. Where the keys of the map hold braces, the tokens
  of two keys can overlap, and no pass over the prompt replaces both. With the keys
  \<open>a{{b\<close> and \<open>b\<close>, the prompt \<open>{{a{{b}}\<close> is the token of the first key and
  ends with the token of \<open>b\<close>, which is not replaced by the value of \<open>b\<close>. With
  the keys \<open>a\<close> and \<open>a}}b\<close>, the prompt \<open>{{a}}b}}\<close> is the token of the second
  key and begins with the token of \<open>a\<close>; the token of the second key is not replaced
  by its value. Likewise a placeholder whose absent key holds a token is not left as it
  stands: in \<open>{{x{{a}}\<close> the key \<open>x{{a\<close> is absent, and the token of \<open>a\<close> inside
  it is replaced.
\<close>

theorem fillPrompt_tokens_counterexample:
  "''{{a{{b}}'' = ''{{a'' @ token ''b''
   \<and> fillPrompt ''{{a{{b}}'' (Some [''a{{b'' \<mapsto> InStr ''X'', ''b'' \<mapsto> InStr ''Y'']) = ''X''
   \<and> ''{{a}}b}}'' = token ''a}}b''
   \<and> fillPrompt ''{{a}}b}}'' (Some [''a'' \<mapsto> InStr ''X'', ''a}}b'' \<mapsto> InStr ''Y''])
       = ''Xb}}''
   \<and> ''{{x{{a}}'' = token ''x{{a''
   \<and> fillPrompt ''{{x{{a}}'' (Some [''a'' \<mapsto> InStr ''X'']) = ''{{xX''"
  by (simp add: fillPrompt_def token_def)

text \<open>
  Claim C7, amended, on the interpolation pass modelled from the spec. For every inputs
  map \<open>I\<close> whose keys hold no brace and every prompt string: wherever the token
  \<open>{{k}}\<close> of a key \<open>k\<close> of \<open>I\<close> occurs (\<open>pre\<close> and \<open>post\<close> are any text),
  the pass replaces it by the string form of \<open>I[k]\<close> and treats the text before it and
  the text after it on their own; a placeholder whose key holds no brace and is absent
  from \<open>I\<close> is left as it stands, in any context. For every inputs map, a prompt in
  which no token of a key of \<open>I\<close> occurs comes back unchanged (lone braces and
  unresolved placeholders included), and so does every prompt when there are no inputs. The pass is a total function of the prompt
  and the map: it raises nothing and changes nothing else.
\<close>

theorem fillPrompt_tokens:
  "((\<forall>k \<in> dom I. brace_free k) \<longrightarrow>
       (\<forall>pre k v post. I k = Some v \<longrightarrow>
          fillPrompt (pre @ token k @ post) (Some I)
            = fillPrompt pre (Some I) @ string_form v @ fillPrompt post (Some I))
     \<and> (\<forall>pre k post. I k = None \<and> brace_free k \<longrightarrow>
          fillPrompt (pre @ token k @ post) (Some I)
            = fillPrompt pre (Some I) @ token k @ fillPrompt post (Some I)))
   \<and> (\<not> has_token I s \<longrightarrow> fillPrompt s (Some I) = s)
   \<and> fillPrompt s None = s"
  by (simp add: fillPrompt_def fill_at_token fill_at_absent_token fill_no_token fill_no_inputs)

text \<open>
  A prompt with a lone pair of braces, the key \<open>name\<close> (a string), \<open>n\<close> (the number
  42), \<open>ok\<close> (a boolean), \<open>nothing\<close> (\<open>null\<close>) and a key that is not in the map.
\<close>

theorem fillPrompt_tokens_witness:
  "fillPrompt ''Reply {ok} to {{name}}: {{n}}, {{ok}}, {{nothing}}, {{other}}}''
      (Some [''name'' \<mapsto> InStr ''Bot'', ''n'' \<mapsto> InInt False 42,
             ''ok'' \<mapsto> InBool True, ''nothing'' \<mapsto> InNull])
     = ''Reply {ok} to Bot: 42, true, null, {{other}}}''"
proof -
  let ?I = "[''name'' \<mapsto> InStr ''Bot'', ''n'' \<mapsto> InInt False 42,
             ''ok'' \<mapsto> InBool True, ''nothing'' \<mapsto> InNull]"
  have keys: "\<forall>k \<in> dom ?I. brace_free k"
    by (simp add: brace_free_def)
  have "\<forall>pre k v post. ?I k = Some v \<longrightarrow>
          fillPrompt (pre @ token k @ post) (Some ?I)
            = fillPrompt pre (Some ?I) @ string_form v @ fillPrompt post (Some ?I)"
    using fillPrompt_tokens [where I = ?I and s = "[]"] keys by blast
  moreover have "?I ''name'' = Some (InStr ''Bot'')"
    by simp
  ultimately have "fillPrompt (''Reply {ok} to '' @ token ''name''
                 @ '': {{n}}, {{ok}}, {{nothing}}, {{other}}}'') (Some ?I)
      = fillPrompt ''Reply {ok} to '' (Some ?I) @ string_form (InStr ''Bot'')
          @ fillPrompt '': {{n}}, {{ok}}, {{nothing}}, {{other}}}'' (Some ?I)"
    by blast
  then show ?thesis
    by (simp add: fillPrompt_def token_def decimal.simps)
qed

end
